theory Spec2Isabelle
  imports Complex_Main "HOL-Library.AList" "HOL-Library.Log_Nat"
begin

section \<open>The dashboard script \<open>Ai_Stock.py\<close>\<close>

text \<open>
  The repository is one Streamlit script. Every run of the script reads the widgets
  (ticker, date range, the two buttons, the indicator multiselect), the session state
  (\<open>st.session_state["stock_data"]\<close>) and the outside world (the price provider, the
  image renderer, the model endpoint, the temporary directory), and produces page
  output. The embedding below makes each of these explicit: a run is a function from
  the widget values, the collaborators and the state to the new state, the list of
  page events and the way the run ended.

  Numbers. A cell of a fetched price column is modelled as \<open>real option\<close>: \<open>None\<close> is
  the null cell (NaN / NaT), \<open>Some x\<close> the finite \<open>float64\<close> number \<open>x\<close>. A volume cell
  is an integer (\<open>int64\<close>). A derived cell has type \<open>fval\<close>: a finite \<open>float64\<close> number,
  an infinity or NaN; the two zeros of \<open>float64\<close> are not told apart.

  Line 110 (VWAP) is element-wise arithmetic of NumPy: it is modelled in \<open>float64\<close>
  (every product, partial sum and quotient rounded to nearest, ties to even, overflow
  to an infinity) and \<open>int64\<close> (the running sum of the volumes wraps at \<open>2^63\<close>). The
  rolling and exponentially weighted kernels of pandas (lines 97, 100, 103--106) are
  written below over exact arithmetic: they say which cells enter each result and where
  the result is null, and no statement of this theory is about the values they
  produce.
\<close>

subsection \<open>Cells, columns and the data frame\<close>

datatype fval = Fin real | PInf | NInf | NaN

fun of_cell :: "real option \<Rightarrow> fval" where
  "of_cell None = NaN"
| "of_cell (Some x) = Fin x"

text \<open>
  The frame that lines 26--30 store: the \<open>Date\<close> column produced by \<open>reset_index\<close>, the
  five columns the script reads by name, and every other column in order (\<open>Adj Close\<close>
  from the provider, later \<open>VWAP\<close>). All columns of a pandas frame share one index; the
  number of rows is the length of \<open>Date\<close>.
\<close>

record frame =
  Date :: "nat option list"
  Open :: "real option list"
  High :: "real option list"
  Low :: "real option list"
  Close :: "real option list"
  Volume :: "int option list"
  extra :: "(string \<times> fval list) list"

definition nrows :: "frame \<Rightarrow> nat" where
  "nrows d = length (Date d)"

text \<open>\<open>data.empty\<close>: an axis of length 0; the frame always has columns, so: no rows.\<close>

definition empty :: "frame \<Rightarrow> bool" where
  "empty d = (nrows d = 0)"

text \<open>\<open>data.isnull().values.any()\<close>: some cell of some column is null. An infinite
  value is not null.\<close>

definition isnull_any :: "frame \<Rightarrow> bool" where
  "isnull_any d =
     (None \<in> set (Date d) \<or> None \<in> set (Open d) \<or> None \<in> set (High d) \<or>
      None \<in> set (Low d) \<or> None \<in> set (Close d) \<or> None \<in> set (Volume d) \<or>
      list_ex (\<lambda>c. NaN \<in> set (snd c)) (extra d))"

subsection \<open>\<open>float64\<close> and \<open>int64\<close>\<close>

text \<open>
  Rounding of a real number to \<open>float64\<close> (53 bits of precision, exponents of the last
  place from \<open>-1074\<close> to \<open>971\<close>): \<open>ilog2 x\<close> is the integer part of the binary logarithm
  of a positive \<open>x\<close>, \<open>ulp_exp x\<close> the exponent of the last place of the format at \<open>x\<close>
  (subnormal numbers included), \<open>rnd x\<close> the nearest multiple of that unit with ties to
  the even multiple, and \<open>round64\<close> turns a result beyond the largest finite number into
  an infinity.
\<close>

definition ilog2 :: "real \<Rightarrow> int" where
  "ilog2 x = (if 1 \<le> x then bitlen \<lfloor>x\<rfloor> - 1 else - bitlen (\<lceil>1 / x\<rceil> - 1))"

definition ulp_exp :: "real \<Rightarrow> int" where
  "ulp_exp x = max (ilog2 \<bar>x\<bar> - 52) (- 1074)"

definition round_even :: "real \<Rightarrow> int" where
  "round_even q =
     (let f = \<lfloor>q\<rfloor>; r = q - of_int f
      in if r < 1 / 2 then f else if 1 / 2 < r then f + 1 else if even f then f else f + 1)"

definition rnd :: "real \<Rightarrow> real" where
  "rnd x = (if x = 0 then 0
            else of_int (round_even (x / 2 powi ulp_exp x)) * 2 powi ulp_exp x)"

definition max_float :: real where
  "max_float = (2 ^ 53 - 1) * 2 ^ 971"

definition round64 :: "real \<Rightarrow> fval" where
  "round64 x =
     (let y = rnd x
      in if max_float < y then PInf else if y < - max_float then NInf else Fin y)"

text \<open>Addition of two \<open>float64\<close> values.\<close>

fun fadd :: "fval \<Rightarrow> fval \<Rightarrow> fval" where
  "fadd (Fin a) (Fin b) = round64 (a + b)"
| "fadd (Fin a) PInf = PInf"
| "fadd (Fin a) NInf = NInf"
| "fadd (Fin a) NaN = NaN"
| "fadd PInf (Fin b) = PInf"
| "fadd PInf PInf = PInf"
| "fadd PInf NInf = NaN"
| "fadd PInf NaN = NaN"
| "fadd NInf (Fin b) = NInf"
| "fadd NInf PInf = NaN"
| "fadd NInf NInf = NInf"
| "fadd NInf NaN = NaN"
| "fadd NaN y = NaN"

text \<open>An \<open>int64\<close> value is an integer from \<open>-2^63\<close> to \<open>2^63 - 1\<close>; a sum that leaves
  the range wraps around.\<close>

definition int64 :: "int \<Rightarrow> bool" where
  "int64 v = (- (2 ^ 63) \<le> v \<and> v < 2 ^ 63)"

definition wrap64 :: "int \<Rightarrow> int" where
  "wrap64 v = (v + 2 ^ 63) mod 2 ^ 64 - 2 ^ 63"

subsection \<open>pandas: rolling mean\<close>

text \<open>
  \<open>Series.rolling(window=w).mean()\<close> as pandas computes it for a fixed trailing window
  (\<open>roll_mean\<close>): one pass over the column that keeps the number of observations
  \<open>nobs\<close> and their sum \<open>sum_x\<close> of the current window. At position \<open>i\<close> the cell that
  leaves the window (\<open>i - w\<close>, when \<open>i \<ge> w\<close>) is removed, cell \<open>i\<close> is added; null cells
  are skipped by both. The result is \<open>sum_x / nobs\<close> when \<open>nobs \<ge> min_periods\<close> and null
  otherwise; \<open>min_periods\<close> defaults to the window size. (Exact arithmetic: the rounding
  and the compensated summation of the kernel are not modelled.)
\<close>

type_synonym mean_state = "nat \<times> real"

fun add_mean :: "real option \<Rightarrow> mean_state \<Rightarrow> mean_state" where
  "add_mean None (nobs, sum_x) = (nobs, sum_x)"
| "add_mean (Some v) (nobs, sum_x) = (nobs + 1, sum_x + v)"

fun remove_mean :: "real option \<Rightarrow> mean_state \<Rightarrow> mean_state" where
  "remove_mean None (nobs, sum_x) = (nobs, sum_x)"
| "remove_mean (Some v) (nobs, sum_x) = (nobs - 1, sum_x - v)"

fun calc_mean :: "nat \<Rightarrow> mean_state \<Rightarrow> real option" where
  "calc_mean minp (nobs, sum_x) =
     (if minp \<le> nobs \<and> 0 < nobs then Some (sum_x / real nobs) else None)"

definition roll_mean_step ::
  "nat \<Rightarrow> nat \<Rightarrow> real option list \<Rightarrow> nat \<Rightarrow> mean_state \<times> real option list
     \<Rightarrow> mean_state \<times> real option list" where
  "roll_mean_step w minp vals i acc =
     (let st0 = fst acc;
          st1 = (if w \<le> i then remove_mean (vals ! (i - w)) st0 else st0);
          st2 = add_mean (vals ! i) st1
      in (st2, snd acc @ [calc_mean minp st2]))"

definition roll_mean :: "nat \<Rightarrow> nat \<Rightarrow> real option list \<Rightarrow> real option list" where
  "roll_mean w minp vals =
     snd (fold (roll_mean_step w minp vals) [0..<length vals] ((0, 0), []))"

definition rolling_mean :: "nat \<Rightarrow> real option list \<Rightarrow> real option list" where
  "rolling_mean w vals = roll_mean w w vals"

subsection \<open>pandas: exponentially weighted mean\<close>

text \<open>
  \<open>Series.ewm(span=n).mean()\<close> with the defaults \<open>adjust=True\<close>, \<open>ignore_na=False\<close>,
  \<open>min_periods=0\<close>: \<open>alpha = 2 / (n + 1)\<close>; the state is the weighted mean so far, the
  weight \<open>old_wt\<close> of the past and the number of observations. The output cell is the
  weighted mean once one observation has been seen. (Exact arithmetic.)
\<close>

type_synonym ewm_state = "real option \<times> real \<times> nat"

fun ewm_step :: "real \<Rightarrow> real option \<Rightarrow> ewm_state \<Rightarrow> ewm_state" where
  "ewm_step alpha None (None, old_wt, nobs) = (None, old_wt, nobs)"
| "ewm_step alpha (Some cur) (None, old_wt, nobs) = (Some cur, old_wt, nobs + 1)"
| "ewm_step alpha None (Some weighted, old_wt, nobs) =
     (Some weighted, old_wt * (1 - alpha), nobs)"
| "ewm_step alpha (Some cur) (Some weighted, old_wt, nobs) =
     (let old_wt1 = old_wt * (1 - alpha);
          weighted1 = (if weighted \<noteq> cur
                       then (old_wt1 * weighted + 1 * cur) / (old_wt1 + 1) else weighted)
      in (Some weighted1, old_wt1 + 1, nobs + 1))"

fun ewm_loop :: "real \<Rightarrow> ewm_state \<Rightarrow> real option list \<Rightarrow> real option list" where
  "ewm_loop alpha st [] = []"
| "ewm_loop alpha st (v # vs) =
     (let st1 = ewm_step alpha v st
      in (if 1 \<le> snd (snd st1) then fst st1 else None) # ewm_loop alpha st1 vs)"

definition ewm_mean :: "nat \<Rightarrow> real option list \<Rightarrow> real option list" where
  "ewm_mean n vals = ewm_loop (2 / (real n + 1)) (None, 1, 0) vals"

subsection \<open>pandas: rolling standard deviation\<close>

text \<open>
  \<open>Series.rolling(window=w).std()\<close> (\<open>ddof=1\<close>): the square root of \<open>roll_var\<close>, which
  keeps the number of observations, their mean and the sum of squared differences
  from the mean of the current window, updated when a cell enters (\<open>add_var\<close>) and
  when a cell leaves (\<open>remove_var\<close>). (Exact arithmetic: the rounding of the kernel
  and its guards against rounding, the compensated summation and the shortcut for a
  window of equal values, are not modelled.)
\<close>

type_synonym var_state = "nat \<times> real \<times> real"

fun add_var :: "real option \<Rightarrow> var_state \<Rightarrow> var_state" where
  "add_var None st = st"
| "add_var (Some v) (nobs, mean_x, ssqdm_x) =
     (let nobs1 = nobs + 1;
          delta = v - mean_x;
          mean1 = mean_x + delta / real nobs1
      in (nobs1, mean1, ssqdm_x + (v - mean_x) * (v - mean1)))"

fun remove_var :: "real option \<Rightarrow> var_state \<Rightarrow> var_state" where
  "remove_var None st = st"
| "remove_var (Some v) (nobs, mean_x, ssqdm_x) =
     (let nobs1 = nobs - 1
      in if nobs1 \<noteq> 0
         then (let delta = v - mean_x;
                   mean1 = mean_x - delta / real nobs1
               in (nobs1, mean1, ssqdm_x - (v - mean_x) * (v - mean1)))
         else (nobs1, 0, 0))"

fun calc_var :: "nat \<Rightarrow> nat \<Rightarrow> var_state \<Rightarrow> real option" where
  "calc_var minp ddof (nobs, mean_x, ssqdm_x) =
     (if minp \<le> nobs \<and> ddof < nobs
      then (if nobs = 1 then Some 0 else Some (ssqdm_x / (real nobs - real ddof)))
      else None)"

definition roll_var_step ::
  "nat \<Rightarrow> nat \<Rightarrow> nat \<Rightarrow> real option list \<Rightarrow> nat \<Rightarrow> var_state \<times> real option list
     \<Rightarrow> var_state \<times> real option list" where
  "roll_var_step w minp ddof vals i acc =
     (let st0 = fst acc;
          st1 = (if w \<le> i then remove_var (vals ! (i - w)) st0 else st0);
          st2 = add_var (vals ! i) st1
      in (st2, snd acc @ [calc_var minp ddof st2]))"

definition roll_var :: "nat \<Rightarrow> nat \<Rightarrow> nat \<Rightarrow> real option list \<Rightarrow> real option list" where
  "roll_var w minp ddof vals =
     snd (fold (roll_var_step w minp ddof vals) [0..<length vals] ((0, 0, 0), []))"

definition zsqrt :: "real \<Rightarrow> real" where
  "zsqrt x = (if x < 0 then 0 else sqrt x)"

definition rolling_std :: "nat \<Rightarrow> real option list \<Rightarrow> real option list" where
  "rolling_std w vals = map (map_option zsqrt) (roll_var w w 1 vals)"

subsection \<open>pandas: arithmetic on columns\<close>

text \<open>Two columns of one frame share the index, so the operators work cell by cell;
  a null operand gives a null result. The sums and differences of lines 105 and 106
  are written over exact arithmetic, as the kernels they combine.\<close>

fun add_cell :: "real option \<Rightarrow> real option \<Rightarrow> real option" where
  "add_cell (Some a) (Some b) = Some (a + b)"
| "add_cell _ _ = None"

fun sub_cell :: "real option \<Rightarrow> real option \<Rightarrow> real option" where
  "sub_cell (Some a) (Some b) = Some (a - b)"
| "sub_cell _ _ = None"

definition series_add :: "real option list \<Rightarrow> real option list \<Rightarrow> real option list" where
  "series_add a b = map2 add_cell a b"

definition series_sub :: "real option list \<Rightarrow> real option list \<Rightarrow> real option list" where
  "series_sub a b = map2 sub_cell a b"

definition scalar_mul :: "real \<Rightarrow> real option list \<Rightarrow> real option list" where
  "scalar_mul k a = map (map_option (\<lambda>x. k * x)) a"

text \<open>\<open>data['Close'] * data['Volume']\<close>: a \<open>float64\<close> column times an \<open>int64\<close> column.
  The integer is converted to \<open>float64\<close> and the product is rounded.\<close>

fun mul_cell :: "real option \<Rightarrow> int option \<Rightarrow> fval" where
  "mul_cell (Some c) (Some v) = round64 (c * rnd (real_of_int v))"
| "mul_cell _ _ = NaN"

definition series_mul :: "real option list \<Rightarrow> int option list \<Rightarrow> fval list" where
  "series_mul a b = map2 mul_cell a b"

text \<open>\<open>cumsum()\<close> of a \<open>float64\<close> column (\<open>skipna=True\<close>): the first cell, then each
  cell added to the running total, from left to right, every sum rounded; a NaN cell
  stays NaN and adds nothing to the total.\<close>

fun cumsum_from :: "fval \<Rightarrow> fval list \<Rightarrow> fval list" where
  "cumsum_from acc [] = []"
| "cumsum_from acc (x # xs) =
     (if x = NaN then NaN # cumsum_from acc xs
      else fadd acc x # cumsum_from (fadd acc x) xs)"

fun cumsum :: "fval list \<Rightarrow> fval list" where
  "cumsum [] = []"
| "cumsum (x # xs) = (if x = NaN then NaN # cumsum xs else x # cumsum_from x xs)"

text \<open>\<open>cumsum()\<close> of an \<open>int64\<close> column: the running total wraps around.\<close>

fun cumsum_int64_from :: "int \<Rightarrow> int option list \<Rightarrow> int option list" where
  "cumsum_int64_from acc [] = []"
| "cumsum_int64_from acc (None # vs) = None # cumsum_int64_from acc vs"
| "cumsum_int64_from acc (Some v # vs) =
     Some (wrap64 (acc + v)) # cumsum_int64_from (wrap64 (acc + v)) vs"

fun cumsum_int64 :: "int option list \<Rightarrow> int option list" where
  "cumsum_int64 [] = []"
| "cumsum_int64 (None # vs) = None # cumsum_int64 vs"
| "cumsum_int64 (Some v # vs) = Some v # cumsum_int64_from v vs"

text \<open>Division of a \<open>float64\<close> cell by an \<open>int64\<close> cell: the integer is converted to
  \<open>float64\<close> and the quotient is rounded. No error is raised for a zero denominator:
  \<open>0 / 0\<close> is NaN and \<open>x / 0\<close> is an infinity with the sign of \<open>x\<close>.\<close>

fun div_cell :: "fval \<Rightarrow> int option \<Rightarrow> fval" where
  "div_cell x None = NaN"
| "div_cell NaN (Some b) = NaN"
| "div_cell PInf (Some b) = (if b < 0 then NInf else PInf)"
| "div_cell NInf (Some b) = (if b < 0 then PInf else NInf)"
| "div_cell (Fin a) (Some b) =
     (if b = 0 then (if a = 0 then NaN else if 0 < a then PInf else NInf)
      else round64 (a / rnd (real_of_int b)))"

definition series_div :: "fval list \<Rightarrow> int option list \<Rightarrow> fval list" where
  "series_div a b = map2 div_cell a b"

subsection \<open>The figure\<close>

datatype trace =
    Candlestick (tr_x: "nat option list") (tr_open: "real option list")
      (tr_high: "real option list") (tr_low: "real option list")
      (tr_close: "real option list") (tr_name: string)
  | Scatter (tr_x: "nat option list") (tr_y: "fval list") (tr_mode: string) (tr_name: string)

record figure =
  traces :: "trace list"
  title :: "string option"
  xaxis_title :: "string option"
  yaxis_title :: "string option"
  xaxis_rangeslider_visible :: "bool option"

definition add_trace :: "trace \<Rightarrow> figure \<Rightarrow> figure" where
  "add_trace t fig = fig\<lparr>traces := traces fig @ [t]\<rparr>"

subsection \<open>Page output\<close>

datatype event =
    St_success string
  | St_error string
  | St_warning string
  | St_info string
  | St_write string
  | St_write_frame frame
  | St_write_dtypes frame
  | St_subheader string
  | St_plotly_chart figure

subsection \<open>Lines 94--117: \<open>add_indicator\<close> and the loop over the selection\<close>

text \<open>
  The body of \<open>add_indicator\<close> is one \<open>try\<close> block whose handler reports the exception
  with \<open>st.error\<close> and returns. On a frame of numeric columns the pandas expressions
  of the model never raise; to follow the handler as well, the function takes
  \<open>fault\<close>: \<open>fault indicator = Some e\<close> says that the pandas computation of that branch
  (line 97, 100, 103--106 or 110) raises an exception with text \<open>e\<close>. The computation
  comes before the branch adds a trace or assigns the column, so a branch that raises
  leaves frame and figure as they were. \<open>no_fault\<close> is the library that never raises.

  \<open>data\<close> is the object stored in the session, and \<open>fig\<close> is shared with the caller:
  the function returns both as it leaves them. \<open>data['VWAP']\<close> read on line 111 is the
  column assigned on line 110.
\<close>

definition no_fault :: "string \<Rightarrow> string option" where
  "no_fault indicator = None"

definition set_column :: "string \<Rightarrow> fval list \<Rightarrow> frame \<Rightarrow> frame" where
  "set_column name col d = d\<lparr>extra := AList.update name col (extra d)\<rparr>"

definition vwap :: "frame \<Rightarrow> fval list" where
  "vwap data =
     series_div (cumsum (series_mul (Close data) (Volume data))) (cumsum_int64 (Volume data))"

definition add_indicator ::
  "(string \<Rightarrow> string option) \<Rightarrow> string \<Rightarrow> frame \<Rightarrow> figure \<Rightarrow> frame \<times> figure \<times> event list" where
  "add_indicator fault indicator data fig =
     (case fault indicator of
        Some e \<Rightarrow> (data, fig, [St_error (''Error adding indicator '' @ indicator @ '': '' @ e)])
      | None \<Rightarrow>
          if indicator = ''20-Day SMA'' then
            (let sma = rolling_mean 20 (Close data)
             in (data, add_trace (Scatter (Date data) (map of_cell sma) ''lines'' ''SMA (20)'') fig, []))
          else if indicator = ''20-Day EMA'' then
            (let ema = ewm_mean 20 (Close data)
             in (data, add_trace (Scatter (Date data) (map of_cell ema) ''lines'' ''EMA (20)'') fig, []))
          else if indicator = ''20-Day Bollinger Bands'' then
            (let sma = rolling_mean 20 (Close data);
                 std = rolling_std 20 (Close data);
                 bb_upper = series_add sma (scalar_mul 2 std);
                 bb_lower = series_sub sma (scalar_mul 2 std);
                 fig1 = add_trace (Scatter (Date data) (map of_cell bb_upper) ''lines'' ''BB Upper'') fig
             in (data, add_trace (Scatter (Date data) (map of_cell bb_lower) ''lines'' ''BB Lower'') fig1, []))
          else if indicator = ''VWAP'' then
            (let data1 = set_column ''VWAP'' (vwap data) data
             in (data1, add_trace (Scatter (Date data1) (vwap data) ''lines'' ''VWAP'') fig, []))
          else (data, fig, []))"

fun add_indicators ::
  "(string \<Rightarrow> string option) \<Rightarrow> string list \<Rightarrow> frame \<Rightarrow> figure \<Rightarrow> frame \<times> figure \<times> event list" where
  "add_indicators fault [] data fig = (data, fig, [])"
| "add_indicators fault (indicator # rest) data fig =
     (case add_indicator fault indicator data fig of
        (data1, fig1, ev1) \<Rightarrow>
          (case add_indicators fault rest data1 fig1 of
             (data2, fig2, ev2) \<Rightarrow> (data2, fig2, ev1 @ ev2)))"

subsection \<open>Lines 66--120: building the chart\<close>

definition candlestick_fig :: "string \<Rightarrow> frame \<Rightarrow> figure" where
  "candlestick_fig ticker data =
     \<lparr>traces = [Candlestick (Date data) (Open data) (High data) (Low data) (Close data)
                  ''Candlestick''],
      title = Some (''Candlestick Chart for '' @ ticker),
      xaxis_title = Some ''Date'',
      yaxis_title = Some ''Price'',
      xaxis_rangeslider_visible = None\<rparr>"

definition build_chart ::
  "(string \<Rightarrow> string option) \<Rightarrow> string \<Rightarrow> frame \<Rightarrow> string list \<Rightarrow> frame \<times> figure \<times> event list" where
  "build_chart fault ticker data indicators =
     (let fig0 = candlestick_fig ticker data
      in case add_indicators fault indicators data fig0 of
           (data1, fig1, ev) \<Rightarrow>
             (let fig2 = fig1\<lparr>xaxis_rangeslider_visible := Some False\<rparr>
              in (data1, fig2, [St_plotly_chart fig0] @ ev @ [St_plotly_chart fig2])))"

subsection \<open>Lines 124--152: the analysis request\<close>

text \<open>
  The collaborators of one run. \<open>yf_download\<close> is the outcome of lines 25--30 (the
  provider call and the flattening of its frame): an exception text or the frame.
  \<open>write_image\<close> is the renderer (the bytes of the image, or an exception),
  \<open>ollama_chat\<close> the model endpoint (model name, prompt, images; the content of the
  reply, or an exception), \<open>tmp_name\<close> the path that \<open>NamedTemporaryFile\<close> creates.
\<close>

record world =
  yf_download :: "string \<Rightarrow> nat \<Rightarrow> nat \<Rightarrow> string + frame"
  fault :: "string \<Rightarrow> string option"
  tmp_name :: string
  write_image :: "figure \<Rightarrow> string + string"
  b64encode :: "string \<Rightarrow> string"
  ollama_chat :: "string \<Rightarrow> string \<Rightarrow> string list \<Rightarrow> string + string"

text \<open>The values of the widgets in one run.\<close>

record widgets =
  ticker :: string
  start_date :: nat
  end_date :: nat
  fetch_clicked :: bool
  indicators :: "string list"
  analysis_clicked :: bool

text \<open>What outlives a run: the session state and the files on disk.\<close>

record state =
  stock_data :: "frame option"
  files :: "string \<Rightarrow> string option"

text \<open>How a run ends: the script reaches its end, \<open>st.stop()\<close> ends it, or an
  exception leaves the script with no handler.\<close>

datatype ending = Finished | Stopped | Unhandled string

text \<open>The prompt of line 138 (line breaks and indentation written as one space).\<close>

definition prompt :: string where
  "prompt = ''You are a Stock Trader specializing in Technical Analysis at a top financial institution. '' @
            ''Analyze the stock chart's technical indicators and provide a buy/hold/sell recommendation. '' @
            ''Base your recommendation only on the candlestick chart and the displayed technical indicators. '' @
            ''First, provide the recommendation, then, provide your detailed reasoning.''"

text \<open>
  The file is created when \<open>NamedTemporaryFile\<close> is entered (\<open>delete=False\<close>: leaving
  the \<open>with\<close> block closes it and keeps it), the renderer writes the image to its
  path, and the bytes read back on line 133 are the bytes just written. Nothing
  between line 127 and line 152 is inside a \<open>try\<close>.
\<close>

definition analyze ::
  "world \<Rightarrow> figure \<Rightarrow> (string \<Rightarrow> string option)
     \<Rightarrow> (string \<Rightarrow> string option) \<times> event list \<times> ending" where
  "analyze w fig fs =
     (let tmpfile_path = tmp_name w;
          fs1 = fs(tmpfile_path \<mapsto> [])
      in case write_image w fig of
           Inl e \<Rightarrow> (fs1, [], Unhandled e)
         | Inr png \<Rightarrow>
             (let fs2 = fs1(tmpfile_path \<mapsto> png);
                  image_data = b64encode w png
              in case ollama_chat w ''llama3.2-vision'' prompt [image_data] of
                   Inl e \<Rightarrow> (fs2, [], Unhandled e)
                 | Inr content \<Rightarrow>
                     (fs2(tmpfile_path := None),
                      [St_write ''**AI Analysis Results:**'', St_write content],
                      Finished)))"

subsection \<open>Lines 38--158: the page for the stored series\<close>

definition head :: "nat \<Rightarrow> frame \<Rightarrow> frame" where
  "head n d =
     \<lparr>Date = take n (Date d), Open = take n (Open d), High = take n (High d),
      Low = take n (Low d), Close = take n (Close d), Volume = take n (Volume d),
      extra = map (\<lambda>c. (fst c, take n (snd c))) (extra d)\<rparr>"

definition no_data_warning :: string where
  "no_data_warning =
     ''No data found for the specified ticker and date range, or data contains NaN values. Please check your inputs.''"

definition click_fetch_info :: string where
  "click_fetch_info = ''Click 'Fetch Data' to load stock data.''"

text \<open>Lines 45--52 print the frame.\<close>

definition page_head :: "frame \<Rightarrow> event list" where
  "page_head data =
     [St_write ''Type of data['Open']: <class 'pandas.core.series.Series'>'',
      St_write ''Type of data: <class 'pandas.core.frame.DataFrame'>'',
      St_write ''First 5 rows of data:'',
      St_write_frame (head 5 data),
      St_write ''Data types of each column:'',
      St_write_dtypes data]"

text \<open>
  Line 39 asks whether the session has the key \<open>stock_data\<close> (\<open>None\<close>: it has not); the
  value stored under it is always a frame, so \<open>data is not None\<close> of line 43 holds.
  Lines 55--63 apply \<open>pd.to_numeric\<close> to the five columns, which returns a numeric
  column as it is and raises nothing. The local \<open>data\<close> is the object held by the
  session state, so the session holds whatever the chart building leaves in it.
\<close>

definition dashboard :: "world \<Rightarrow> widgets \<Rightarrow> state \<Rightarrow> state \<times> event list \<times> ending" where
  "dashboard w inp s =
     (case stock_data s of
        None \<Rightarrow> (s, [St_info click_fetch_info], Finished)
      | Some data \<Rightarrow>
          if \<not> empty data \<and> \<not> isnull_any data then
            (case build_chart (fault w) (ticker inp) data (indicators inp) of
               (data1, fig, ev) \<Rightarrow>
                 (let s1 = s\<lparr>stock_data := Some data1\<rparr>;
                      page = page_head data @ ev @ [St_subheader ''AI-Powered Analysis'']
                  in if analysis_clicked inp
                     then (case analyze w fig (files s1) of
                             (fs1, ev1, en) \<Rightarrow> (s1\<lparr>files := fs1\<rparr>, page @ ev1, en))
                     else (s1, page, Finished)))
          else (s, [St_warning no_data_warning, St_info click_fetch_info], Finished))"

subsection \<open>Lines 23--36 and the whole script\<close>

definition script :: "world \<Rightarrow> widgets \<Rightarrow> state \<Rightarrow> state \<times> event list \<times> ending" where
  "script w inp s =
     (if fetch_clicked inp then
        (case yf_download w (ticker inp) (start_date inp) (end_date inp) of
           Inl e \<Rightarrow> (s, [St_error (''Error fetching data: '' @ e)], Stopped)
         | Inr data \<Rightarrow>
             (case dashboard w inp (s\<lparr>stock_data := Some data\<rparr>) of
                (s1, ev, en) \<Rightarrow> (s1, St_success ''Stock data loaded successfully!'' # ev, en)))
      else dashboard w inp s)"

section \<open>Notions used in the statements\<close>

text \<open>The names of the layers an indicator of the multiselect contributes: one line
  for an indicator without bands, two for the Bollinger Bands.\<close>

definition indicator_options :: "string list" where
  "indicator_options = [''20-Day SMA'', ''20-Day EMA'', ''20-Day Bollinger Bands'', ''VWAP'']"

definition layer_names :: "string \<Rightarrow> string list" where
  "layer_names indicator =
     (if indicator = ''20-Day SMA'' then [''SMA (20)'']
      else if indicator = ''20-Day EMA'' then [''EMA (20)'']
      else if indicator = ''20-Day Bollinger Bands'' then [''BB Upper'', ''BB Lower'']
      else if indicator = ''VWAP'' then [''VWAP'']
      else [])"

fun is_line :: "trace \<Rightarrow> bool" where
  "is_line (Scatter x y m n) = (m = ''lines'')"
| "is_line (Candlestick x a b c d n) = False"

text \<open>The columns the chart is built from.\<close>

definition prices ::
  "frame \<Rightarrow> nat option list \<times> real option list \<times> real option list \<times> real option list
     \<times> real option list \<times> int option list" where
  "prices d = (Date d, Open d, High d, Low d, Close d, Volume d)"

text \<open>What the handler of \<open>add_indicator\<close> prints for an indicator.\<close>

definition error_events :: "(string \<Rightarrow> string option) \<Rightarrow> string \<Rightarrow> event list" where
  "error_events f i =
     (case f i of
        Some e \<Rightarrow> [St_error (''Error adding indicator '' @ i @ '': '' @ e)]
      | None \<Rightarrow> [])"

fun is_error :: "event \<Rightarrow> bool" where
  "is_error (St_error m) = True"
| "is_error _ = False"

text \<open>The running \<open>float64\<close> sum of a list of cells, from left to right.\<close>

fun fl_sum :: "fval list \<Rightarrow> fval" where
  "fl_sum [] = Fin 0"
| "fl_sum (x # xs) = foldl fadd x xs"

subsection \<open>Example inputs\<close>

text \<open>A series without nulls from its closes and volumes (open, high and low equal
  to the close), the dates numbered from 0.\<close>

definition flat_frame :: "real list \<Rightarrow> int list \<Rightarrow> frame" where
  "flat_frame cs vs =
     \<lparr>Date = map Some [0..<length cs], Open = map Some cs, High = map Some cs,
      Low = map Some cs, Close = map Some cs, Volume = map Some vs, extra = []\<rparr>"

definition closes21 :: "real list" where
  "closes21 = [107, 95, 99, 99, 100, 100, 100, 100, 100, 100,
               100, 100, 100, 100, 100, 100, 100, 100, 100, 100, 121]"

definition frame21 :: frame where
  "frame21 = flat_frame closes21 (replicate 21 1000)"

definition frame252 :: frame where
  "frame252 = flat_frame (replicate 252 100) (replicate 252 1000)"

definition null_frame :: frame where
  "null_frame = (flat_frame [10, 11, 12] [5, 5, 5])\<lparr>Close := [Some 10, None, Some 12]\<rparr>"

definition empty_frame :: frame where
  "empty_frame = flat_frame [] []"

text \<open>A session that holds a series, with no file on disk.\<close>

definition state_of :: "frame \<Rightarrow> state" where
  "state_of d = \<lparr>stock_data = Some d, files = (\<lambda>p. None)\<rparr>"

text \<open>Collaborators that all succeed, and the widgets as the page first shows them.\<close>

definition world0 :: world where
  "world0 = \<lparr>yf_download = (\<lambda>t a b. Inl ''No data''), fault = no_fault,
             tmp_name = ''/tmp/tmpchart.png'', write_image = (\<lambda>fig. Inr ''PNG''),
             b64encode = (\<lambda>b. b), ollama_chat = (\<lambda>m p imgs. Inr ''HOLD'')\<rparr>"

definition widgets0 :: widgets where
  "widgets0 = \<lparr>ticker = ''AAPL'', start_date = 0, end_date = 700, fetch_clicked = False,
               indicators = [''20-Day SMA''], analysis_clicked = False\<rparr>"

text \<open>A library in which the EMA computation raises.\<close>

definition ema_fails :: "string \<Rightarrow> string option" where
  "ema_fails i = (if i = ''20-Day EMA'' then Some ''boom'' else None)"

definition world_ema_fails :: world where
  "world_ema_fails = world0\<lparr>fault := ema_fails\<rparr>"

definition widgets_three :: widgets where
  "widgets_three = widgets0\<lparr>indicators := [''20-Day SMA'', ''20-Day EMA'', ''VWAP'']\<rparr>"

text \<open>An endpoint that times out, and a click on the analysis button.\<close>

definition world_timeout :: world where
  "world_timeout = world0\<lparr>ollama_chat := (\<lambda>m p imgs. Inl ''timed out'')\<rparr>"

definition widgets_analyze :: widgets where
  "widgets_analyze = widgets0\<lparr>analysis_clicked := True\<rparr>"

text \<open>
  A series whose first day has volume 0, and the selection \<open>VWAP\<close>.
\<close>

definition zero_volume_frame :: frame where
  "zero_volume_frame = flat_frame [10, 11] [0, 5]"

definition widgets_vwap :: widgets where
  "widgets_vwap = widgets0\<lparr>indicators := [''VWAP'']\<rparr>"

text \<open>
  Two days at close 10 with volume \<open>2^62\<close> each: the running sum of the volumes leaves
  \<open>int64\<close> on the second day. And one day at the \<open>float64\<close> number nearest to 0.1
  with volume 3: the product and the quotient are both rounded.
\<close>

definition wrap_frame :: frame where
  "wrap_frame = flat_frame [10, 10] [4611686018427387904, 4611686018427387904]"

definition tenth_frame :: frame where
  "tenth_frame = flat_frame [3602879701896397 / 36028797018963968] [3]"

section \<open>Properties\<close>

subsection \<open>The indicators of a selection, one after the other\<close>

lemma add_indicator_names:
  "map tr_name (traces (fst (snd (add_indicator f i d fig))))
   = map tr_name (traces fig) @ (if f i = None then layer_names i else [])"
  by (cases "f i") (simp_all add: add_indicator_def add_trace_def layer_names_def Let_def)

lemma add_indicator_events:
  "snd (snd (add_indicator f i d fig)) = error_events f i"
  by (cases "f i") (simp_all add: add_indicator_def error_events_def Let_def)

lemma add_indicator_frame:
  "fst (add_indicator f i d fig)
   = (if i = ''VWAP'' \<and> f i = None then set_column ''VWAP'' (vwap d) d else d)"
  by (cases "f i") (simp_all add: add_indicator_def Let_def)

lemma add_indicators_names:
  "map tr_name (traces (fst (snd (add_indicators f sel d fig))))
   = map tr_name (traces fig) @ concat (map (\<lambda>i. if f i = None then layer_names i else []) sel)"
proof (induction sel arbitrary: d fig)
  case Nil
  show ?case by simp
next
  case (Cons i sel)
  obtain d1 fig1 ev1 where a: "add_indicator f i d fig = (d1, fig1, ev1)"
    by (cases "add_indicator f i d fig") auto
  obtain d2 fig2 ev2 where b: "add_indicators f sel d1 fig1 = (d2, fig2, ev2)"
    by (cases "add_indicators f sel d1 fig1") auto
  have "map tr_name (traces fig1) = map tr_name (traces fig) @ (if f i = None then layer_names i else [])"
    using add_indicator_names [of f i d fig] a by simp
  moreover have "map tr_name (traces fig2)
      = map tr_name (traces fig1) @ concat (map (\<lambda>i. if f i = None then layer_names i else []) sel)"
    using Cons.IH [of d1 fig1] b by simp
  ultimately show ?case using a b by simp
qed

lemma add_indicators_events:
  "snd (snd (add_indicators f sel d fig)) = concat (map (error_events f) sel)"
proof (induction sel arbitrary: d fig)
  case Nil
  show ?case by simp
next
  case (Cons i sel)
  obtain d1 fig1 ev1 where a: "add_indicator f i d fig = (d1, fig1, ev1)"
    by (cases "add_indicator f i d fig") auto
  obtain d2 fig2 ev2 where b: "add_indicators f sel d1 fig1 = (d2, fig2, ev2)"
    by (cases "add_indicators f sel d1 fig1") auto
  have "ev1 = error_events f i" using add_indicator_events [of f i d fig] a by simp
  moreover have "ev2 = concat (map (error_events f) sel)" using Cons.IH [of d1 fig1] b by simp
  ultimately show ?case using a b by simp
qed

lemma add_indicator_prices: "prices (fst (add_indicator f i d fig)) = prices d"
  by (simp add: add_indicator_frame prices_def set_column_def)

lemma vwap_prices: "prices d = prices d' \<Longrightarrow> vwap d = vwap d'"
  by (simp add: prices_def vwap_def)

lemma add_indicator_cong:
  assumes "prices d = prices d'"
  shows "snd (add_indicator f i d fig) = snd (add_indicator f i d' fig)"
proof -
  have "vwap d = vwap d'" using assms by (rule vwap_prices)
  then show ?thesis
    using assms by (cases "f i") (simp_all add: add_indicator_def prices_def Let_def set_column_def)
qed

lemma add_indicators_cong:
  assumes "prices d = prices d'"
  shows "snd (add_indicators f sel d fig) = snd (add_indicators f sel d' fig)"
  using assms
proof (induction sel arbitrary: d d' fig)
  case Nil
  show ?case by simp
next
  case (Cons i sel)
  obtain d1 fig1 ev1 where a: "add_indicator f i d fig = (d1, fig1, ev1)"
    by (cases "add_indicator f i d fig") auto
  obtain d1' fig1' ev1' where a': "add_indicator f i d' fig = (d1', fig1', ev1')"
    by (cases "add_indicator f i d' fig") auto
  have same: "fig1' = fig1" "ev1' = ev1"
    using add_indicator_cong [OF Cons.prems, of f i fig] a a' by simp_all
  have p: "prices d1 = prices d1'"
    using add_indicator_prices [of f i d fig] add_indicator_prices [of f i d' fig] a a' Cons.prems
    by simp
  show ?case using Cons.IH [OF p, of fig1] a a' same by (auto split: prod.splits)
qed

lemma add_indicators_frame:
  "fst (add_indicators f sel d fig)
   = (if ''VWAP'' \<in> set sel \<and> f ''VWAP'' = None then set_column ''VWAP'' (vwap d) d else d)"
proof (induction sel arbitrary: d fig)
  case Nil
  show ?case by simp
next
  case (Cons i sel)
  obtain d1 fig1 ev1 where a: "add_indicator f i d fig = (d1, fig1, ev1)"
    by (cases "add_indicator f i d fig") auto
  have d1: "d1 = (if i = ''VWAP'' \<and> f i = None then set_column ''VWAP'' (vwap d) d else d)"
    using add_indicator_frame [of f i d fig] a by simp
  have v: "vwap d1 = vwap d"
    using add_indicator_prices [of f i d fig] a by (intro vwap_prices) simp
  have twice: "set_column ''VWAP'' (vwap d) (set_column ''VWAP'' (vwap d) d) = set_column ''VWAP'' (vwap d) d"
    by (simp add: set_column_def)
  have "fst (add_indicators f (i # sel) d fig) = fst (add_indicators f sel d1 fig1)"
    using a by (simp split: prod.splits)
  also have "\<dots> = (if ''VWAP'' \<in> set sel \<and> f ''VWAP'' = None then set_column ''VWAP'' (vwap d1) d1 else d1)"
    by (rule Cons.IH)
  finally show ?case using d1 v twice by auto
qed

lemma add_indicators_prices: "prices (fst (add_indicators f sel d fig)) = prices d"
  by (simp add: add_indicators_frame prices_def set_column_def)

lemma candlestick_fig_prices: "prices d = prices d' \<Longrightarrow> candlestick_fig t d = candlestick_fig t d'"
  by (simp add: candlestick_fig_def prices_def)

lemma add_indicators_again:
  "fst (add_indicators f sel (fst (add_indicators f sel d fig)) fig') = fst (add_indicators f sel d fig)"
proof -
  let ?d1 = "fst (add_indicators f sel d fig)"
  have v: "vwap ?d1 = vwap d" by (intro vwap_prices add_indicators_prices)
  have twice: "set_column ''VWAP'' (vwap d) (set_column ''VWAP'' (vwap d) d) = set_column ''VWAP'' (vwap d) d"
    by (simp add: set_column_def)
  have "fst (add_indicators f sel ?d1 fig')
        = (if ''VWAP'' \<in> set sel \<and> f ''VWAP'' = None then set_column ''VWAP'' (vwap ?d1) ?d1 else ?d1)"
    by (rule add_indicators_frame)
  then show ?thesis unfolding v by (simp add: add_indicators_frame [of f sel d fig] twice)
qed

lemma build_chart_proj:
  "build_chart f t d sel =
     (fst (add_indicators f sel d (candlestick_fig t d)),
      (fst (snd (add_indicators f sel d (candlestick_fig t d))))\<lparr>xaxis_rangeslider_visible := Some False\<rparr>,
      [St_plotly_chart (candlestick_fig t d)] @ snd (snd (add_indicators f sel d (candlestick_fig t d)))
        @ [St_plotly_chart ((fst (snd (add_indicators f sel d (candlestick_fig t d))))\<lparr>xaxis_rangeslider_visible := Some False\<rparr>)])"
  by (simp add: build_chart_def Let_def split: prod.splits)

lemma build_chart_names:
  "map tr_name (traces (fst (snd (build_chart f t d sel))))
   = ''Candlestick'' # concat (map (\<lambda>i. if f i = None then layer_names i else []) sel)"
  by (simp add: build_chart_proj add_indicators_names) (simp add: candlestick_fig_def)

lemma add_indicator_lines:
  "\<exists>ts. traces (fst (snd (add_indicator f i d fig))) = traces fig @ ts \<and> list_all is_line ts"
  by (cases "f i") (simp_all add: add_indicator_def add_trace_def Let_def)

lemma add_indicators_lines:
  "\<exists>ts. traces (fst (snd (add_indicators f sel d fig))) = traces fig @ ts \<and> list_all is_line ts"
proof (induction sel arbitrary: d fig)
  case Nil
  show ?case by simp
next
  case (Cons i sel)
  obtain d1 fig1 ev1 where a: "add_indicator f i d fig = (d1, fig1, ev1)"
    by (cases "add_indicator f i d fig") auto
  obtain ts1 where t1: "traces fig1 = traces fig @ ts1" "list_all is_line ts1"
    using add_indicator_lines [of f i d fig] a by auto
  obtain ts2 where t2: "traces (fst (snd (add_indicators f sel d1 fig1))) = traces fig1 @ ts2"
      "list_all is_line ts2"
    using Cons.IH [of d1 fig1] by auto
  have "traces (fst (snd (add_indicators f (i # sel) d fig))) = traces fig @ (ts1 @ ts2)"
    using a t1 t2 by (auto split: prod.splits)
  moreover have "list_all is_line (ts1 @ ts2)" using t1 t2 by simp
  ultimately show ?case by blast
qed

lemma layer_count:
  assumes "set sel \<subseteq> set indicator_options"
  shows "length (concat (map layer_names sel)) = length sel + count_list sel ''20-Day Bollinger Bands''"
  using assms by (induction sel) (auto simp: layer_names_def indicator_options_def)

lemma dashboard_valid:
  assumes "stock_data s = Some d" "\<not> empty d" "\<not> isnull_any d"
  shows "dashboard w inp s =
     (let bc = build_chart (fault w) (ticker inp) d (indicators inp);
          s1 = s\<lparr>stock_data := Some (fst bc)\<rparr>;
          page = page_head d @ snd (snd bc) @ [St_subheader ''AI-Powered Analysis'']
      in if analysis_clicked inp
         then (let an = analyze w (fst (snd bc)) (files s1)
               in (s1\<lparr>files := fst an\<rparr>, page @ fst (snd an), snd (snd an)))
         else (s1, page, Finished))"
  using assms by (simp add: dashboard_def page_head_def Let_def split: prod.splits)

lemma dashboard_invalid:
  assumes "stock_data s = Some d" "empty d \<or> isnull_any d"
  shows "dashboard w inp s = (s, [St_warning no_data_warning, St_info click_fetch_info], Finished)"
  using assms by (auto simp: dashboard_def)

lemma frame21_valid: "\<not> empty frame21 \<and> \<not> isnull_any frame21"
  by (auto simp: frame21_def closes21_def flat_frame_def empty_def isnull_any_def nrows_def)

subsection \<open>Layers of the chart\<close>

text \<open>
  C4. For every series and every selection made from the options of the multiselect,
  the chart that lines 66--120 build has the candlestick layer first and then, in the
  order of the selection, the line layers of the selected indicators: one line for
  SMA, EMA and VWAP, two for the Bollinger Bands. (The statement needs nothing of the
  series, so it holds for every valid one.)
\<close>

theorem chart_layers_follow_selection:
  assumes "set sel \<subseteq> set indicator_options"
  shows "hd (traces (fst (snd (build_chart no_fault t d sel))))
           = Candlestick (Date d) (Open d) (High d) (Low d) (Close d) ''Candlestick'' \<and>
         list_all is_line (tl (traces (fst (snd (build_chart no_fault t d sel))))) \<and>
         map tr_name (traces (fst (snd (build_chart no_fault t d sel))))
           = ''Candlestick'' # concat (map layer_names sel) \<and>
         length (traces (fst (snd (build_chart no_fault t d sel))))
           = 1 + length sel + count_list sel ''20-Day Bollinger Bands''"
proof -
  let ?fig = "fst (snd (build_chart no_fault t d sel))"
  obtain ts where ts: "traces (fst (snd (add_indicators no_fault sel d (candlestick_fig t d))))
      = traces (candlestick_fig t d) @ ts" "list_all is_line ts"
    using add_indicators_lines by blast
  have tr: "traces ?fig = Candlestick (Date d) (Open d) (High d) (Low d) (Close d) ''Candlestick'' # ts"
    using ts(1) by (simp add: build_chart_proj candlestick_fig_def)
  have names: "map tr_name (traces ?fig) = ''Candlestick'' # concat (map layer_names sel)"
    using build_chart_names [of no_fault t d sel] by (simp add: no_fault_def)
  have "length (traces ?fig) = length (map tr_name (traces ?fig))" by simp
  also have "\<dots> = 1 + length sel + count_list sel ''20-Day Bollinger Bands''"
    unfolding names using layer_count [OF assms] by simp
  finally have len: "length (traces ?fig) = 1 + length sel + count_list sel ''20-Day Bollinger Bands''" .
  show ?thesis using tr ts(2) names len by simp
qed

lemma frame252_valid: "\<not> empty frame252 \<and> \<not> isnull_any frame252 \<and> nrows frame252 = 252"
  by (auto simp: frame252_def flat_frame_def empty_def isnull_any_def nrows_def)

theorem chart_layers_scenario_252:
  "\<not> empty frame252 \<and> \<not> isnull_any frame252 \<and> nrows frame252 = 252 \<and>
   map tr_name (traces (fst (snd (build_chart no_fault ''AAPL'' frame252 [''20-Day SMA'', ''VWAP''])))) 
     = [''Candlestick'', ''SMA (20)'', ''VWAP''] \<and>
   length (traces (fst (snd (build_chart no_fault ''AAPL'' frame252 [''20-Day SMA'', ''VWAP''])))) = 3"
proof -
  have sub: "set [''20-Day SMA'', ''VWAP''] \<subseteq> set indicator_options"
    by (simp add: indicator_options_def)
  show ?thesis
    using chart_layers_follow_selection [OF sub, of "''AAPL''" frame252] frame252_valid
    by (simp add: layer_names_def)
qed

subsection \<open>A failing indicator\<close>

text \<open>
  C8. On a series that passes the gate (and with no click on the analysis button) the
  run reaches its end whatever the library raises while an indicator is computed. An
  indicator whose computation raises contributes no layer and one \<open>st.error\<close> message
  that names it; every other selected indicator contributes its layers, in the order
  of the selection, and the chart is drawn.
\<close>

theorem indicator_failure_is_isolated:
  assumes "stock_data s = Some d" and "\<not> empty d" and "\<not> isnull_any d"
    and "\<not> analysis_clicked inp"
  shows "snd (snd (dashboard w inp s)) = Finished \<and>
         fst (snd (dashboard w inp s))
           = page_head d @ [St_plotly_chart (candlestick_fig (ticker inp) d)]
             @ concat (map (error_events (fault w)) (indicators inp))
             @ [St_plotly_chart (fst (snd (build_chart (fault w) (ticker inp) d (indicators inp)))),
                St_subheader ''AI-Powered Analysis''] \<and>
         map tr_name (traces (fst (snd (build_chart (fault w) (ticker inp) d (indicators inp)))))
           = ''Candlestick'' #
             concat (map (\<lambda>i. if fault w i = None then layer_names i else []) (indicators inp))"
proof -
  have "dashboard w inp s =
     (s\<lparr>stock_data := Some (fst (build_chart (fault w) (ticker inp) d (indicators inp)))\<rparr>,
      page_head d @ snd (snd (build_chart (fault w) (ticker inp) d (indicators inp)))
        @ [St_subheader ''AI-Powered Analysis''],
      Finished)"
    using dashboard_valid [OF assms(1-3), of w inp] assms(4) by (simp add: Let_def)
  moreover have "snd (snd (build_chart (fault w) (ticker inp) d (indicators inp)))
      = [St_plotly_chart (candlestick_fig (ticker inp) d)]
        @ concat (map (error_events (fault w)) (indicators inp))
        @ [St_plotly_chart (fst (snd (build_chart (fault w) (ticker inp) d (indicators inp))))]"
    by (simp add: build_chart_proj add_indicators_events)
  ultimately show ?thesis by (simp add: build_chart_names)
qed

theorem indicator_failure_is_isolated_witness:
  "snd (snd (dashboard world_ema_fails widgets_three (state_of frame21))) = Finished \<and>
   St_error ''Error adding indicator 20-Day EMA: boom''
     \<in> set (fst (snd (dashboard world_ema_fails widgets_three (state_of frame21)))) \<and>
   map tr_name (traces (fst (snd (build_chart ema_fails ''AAPL'' frame21
                                    [''20-Day SMA'', ''20-Day EMA'', ''VWAP'']))))
     = [''Candlestick'', ''SMA (20)'', ''VWAP'']"
proof -
  have a: "stock_data (state_of frame21) = Some frame21" by (simp add: state_of_def)
  have b: "\<not> analysis_clicked widgets_three" by (simp add: widgets_three_def widgets0_def)
  have f: "fault world_ema_fails = ema_fails" by (simp add: world_ema_fails_def world0_def)
  have t: "ticker widgets_three = ''AAPL''" by (simp add: widgets_three_def widgets0_def)
  have i: "indicators widgets_three = [''20-Day SMA'', ''20-Day EMA'', ''VWAP'']"
    by (simp add: widgets_three_def widgets0_def)
  show ?thesis
    using indicator_failure_is_isolated [OF a _ _ b, of world_ema_fails] frame21_valid
    unfolding f t i
    by (simp add: ema_fails_def layer_names_def error_events_def)
qed

subsection \<open>Building twice\<close>

text \<open>
  C9. Building the chart is a function of the series, the ticker and the ordered
  selection, and it is idempotent: a second build in the same session, on the series as
  the first build left it (with the \<open>VWAP\<close> column when VWAP is selected), gives the
  same series, the same figure (layers, their order and names, layout) and the same
  page output as the first.
\<close>

theorem build_chart_idempotent:
  "build_chart f t (fst (build_chart f t d sel)) sel = build_chart f t d sel"
proof -
  let ?fig0 = "candlestick_fig t d"
  let ?d1 = "fst (add_indicators f sel d ?fig0)"
  have p: "prices ?d1 = prices d" by (rule add_indicators_prices)
  have c: "candlestick_fig t ?d1 = ?fig0" using p by (rule candlestick_fig_prices)
  have a: "snd (add_indicators f sel ?d1 ?fig0) = snd (add_indicators f sel d ?fig0)"
    using p by (rule add_indicators_cong)
  have b: "fst (add_indicators f sel ?d1 ?fig0) = ?d1" by (rule add_indicators_again)
  have d1: "fst (build_chart f t d sel) = ?d1" by (simp add: build_chart_proj)
  show ?thesis
    unfolding d1 by (simp add: build_chart_proj [of f t ?d1] build_chart_proj [of f t d] c a b)
qed

subsection \<open>What the indicators do to the stored series\<close>

text \<open>
  C10. For a series that passes the gate: the SMA, EMA and Bollinger branches return
  the stored series as it was; the VWAP branch assigns the column \<open>VWAP\<close>; after
  the run the session holds the series with that column exactly when VWAP was among
  the selected indicators (and its computation did not raise).
\<close>

theorem only_vwap_writes_back:
  assumes "stock_data s = Some d" and "\<not> empty d" and "\<not> isnull_any d"
  shows "fst (add_indicator (fault w) ''20-Day SMA'' d fig) = d \<and>
         fst (add_indicator (fault w) ''20-Day EMA'' d fig) = d \<and>
         fst (add_indicator (fault w) ''20-Day Bollinger Bands'' d fig) = d \<and>
         (fault w ''VWAP'' = None \<longrightarrow>
            fst (add_indicator (fault w) ''VWAP'' d fig) = set_column ''VWAP'' (vwap d) d) \<and>
         map_of (extra (set_column ''VWAP'' (vwap d) d)) ''VWAP'' = Some (vwap d) \<and>
         stock_data (fst (dashboard w inp s))
           = Some (if ''VWAP'' \<in> set (indicators inp) \<and> fault w ''VWAP'' = None
                   then set_column ''VWAP'' (vwap d) d else d)"
proof -
  have "stock_data (fst (dashboard w inp s)) = Some (fst (build_chart (fault w) (ticker inp) d (indicators inp)))"
    using dashboard_valid [OF assms, of w inp] by (simp add: Let_def)
  then show ?thesis
    by (simp add: add_indicator_frame build_chart_proj add_indicators_frame set_column_def update_Some_unfold)
qed

theorem only_vwap_writes_back_witness:
  "stock_data (fst (dashboard world0 (widgets0\<lparr>indicators := [''20-Day SMA'', ''20-Day EMA'', ''20-Day Bollinger Bands'']\<rparr>) (state_of frame21)))
     = Some frame21 \<and>
   stock_data (fst (dashboard world0 (widgets0\<lparr>indicators := [''20-Day SMA'', ''VWAP'']\<rparr>) (state_of frame21)))
     = Some (set_column ''VWAP'' (vwap frame21) frame21) \<and>
   extra (set_column ''VWAP'' (vwap frame21) frame21) = [(''VWAP'', vwap frame21)] \<and>
   extra frame21 = []"
proof -
  have a: "stock_data (state_of frame21) = Some frame21" by (simp add: state_of_def)
  have v: "\<not> empty frame21" "\<not> isnull_any frame21" using frame21_valid by simp_all
  have e: "extra frame21 = []" by (simp add: frame21_def flat_frame_def)
  show ?thesis
    using only_vwap_writes_back [OF a v, of world0 _ "widgets0\<lparr>indicators := [''20-Day SMA'', ''20-Day EMA'', ''20-Day Bollinger Bands'']\<rparr>"]
          only_vwap_writes_back [OF a v, of world0 _ "widgets0\<lparr>indicators := [''20-Day SMA'', ''VWAP'']\<rparr>"]
    by (simp add: world0_def no_fault_def set_column_def e)
qed

subsection \<open>VWAP\<close>

lemma rnd_zero: "rnd 0 = 0"
  by (simp add: rnd_def)

lemma round64_zero: "round64 0 = Fin 0"
  by (simp add: round64_def rnd_zero max_float_def)

lemma round_even_int: "round_even (of_int n) = n"
  by (simp add: round_even_def)

lemma ulp_exp_int:
  assumes "n \<noteq> 0" and "\<bar>n\<bar> < 2 ^ 53"
  shows "ulp_exp (of_int n) \<le> 0"
proof -
  have one: "1 \<le> \<bar>real_of_int n\<bar>" using assms(1) by (simp add: abs_if)
  have fl: "\<lfloor>\<bar>real_of_int n\<bar>\<rfloor> = \<bar>n\<bar>" by (metis floor_of_int of_int_abs)
  have "bitlen \<bar>n\<bar> \<le> 53" using assms(2) by (simp add: bitlen_le_iff_power)
  then have "ilog2 \<bar>real_of_int n\<bar> - 52 \<le> 0" using one fl by (simp add: ilog2_def)
  then show ?thesis by (simp add: ulp_exp_def)
qed

lemma rnd_int:
  assumes "\<bar>n\<bar> < 2 ^ 53"
  shows "rnd (of_int n) = of_int n"
proof (cases "n = 0")
  case True
  then show ?thesis by (simp add: rnd_def)
next
  case False
  define e where "e = ulp_exp (of_int n)"
  have e: "e \<le> 0" unfolding e_def using False assms by (rule ulp_exp_int)
  have p: "(2::real) powi e = 1 / 2 ^ nat (- e)"
    using e by (cases "e = 0") (simp_all add: power_int_def inverse_eq_divide power_one_over)
  have "real_of_int n / 2 powi e = of_int (n * 2 ^ nat (- e))" by (simp add: p)
  then have "round_even (real_of_int n / 2 powi e) = n * 2 ^ nat (- e)"
    by (simp only: round_even_int)
  then have "of_int (round_even (real_of_int n / 2 powi e)) * 2 powi e = real_of_int n"
    by (simp add: p)
  then show ?thesis using False by (simp add: rnd_def e_def)
qed

lemma round64_int:
  assumes "\<bar>n\<bar> < 2 ^ 53"
  shows "round64 (of_int n) = Fin (of_int n)"
proof -
  have "\<bar>real_of_int n\<bar> < 2 ^ 53" using assms by (metis of_int_abs of_int_less_numeral_power_cancel_iff)
  moreover have "(2::real) ^ 53 \<le> max_float" by (simp add: max_float_def)
  ultimately have "\<not> max_float < real_of_int n" "\<not> real_of_int n < - max_float" by linarith+
  then show ?thesis by (simp add: round64_def rnd_int [OF assms])
qed

text \<open>
  The exponent of the last place of a number is fixed by the binade the number lies in;
  the rounded number is a nearest one on that grid, and a number already on the grid
  with a significand below \<open>2^53\<close> is left as it is.
\<close>

lemma bitlen_eqI:
  assumes "2 ^ nat (b - 1) \<le> n" and "n < 2 ^ nat b" and "1 \<le> b"
  shows "bitlen n = b"
proof -
  have "bitlen n \<le> b" using assms(2,3) bitlen_le_iff_power [of n "nat b"] by simp
  moreover have "b \<le> bitlen n"
    using assms(1,3) bitlen_ge_iff_power [of b n] by (simp add: nat_diff_distrib)
  ultimately show ?thesis by simp
qed

lemma ilog2_eq:
  assumes "2 powi k \<le> x" and "x < 2 powi (k + 1)"
  shows "ilog2 x = k"
proof (cases "1 \<le> x")
  case True
  have k0: "0 \<le> k"
  proof (rule ccontr)
    assume "\<not> 0 \<le> k"
    then have "k + 1 \<le> 0" by simp
    then have "(2::real) powi (k + 1) \<le> 2 powi 0" by (intro power_int_increasing) simp_all
    then show False using assms(2) True by simp
  qed
  have lo: "(2::real) powi k = 2 ^ nat k" and hi: "(2::real) powi (k + 1) = 2 ^ nat (k + 1)"
    using k0 by (simp_all add: power_int_def)
  have "(2::int) ^ nat k \<le> \<lfloor>x\<rfloor>"
    using assms(1) unfolding lo by (simp add: le_floor_iff)
  moreover have "\<lfloor>x\<rfloor> < (2::int) ^ nat (k + 1)"
    using assms(2) unfolding hi by (simp add: floor_less_iff)
  ultimately have "bitlen \<lfloor>x\<rfloor> = k + 1"
    using k0 by (intro bitlen_eqI) simp_all
  then show ?thesis using True by (simp add: ilog2_def)
next
  case False
  then have x1: "x < 1" by simp
  have "(0::real) < 2 powi k" by simp
  then have xpos: "0 < x" using assms(1) by linarith
  have kneg: "k < 0"
  proof (rule ccontr)
    assume "\<not> k < 0"
    then have "(2::real) powi 0 \<le> 2 powi k" by (intro power_int_increasing) simp_all
    then show False using assms(1) x1 by simp
  qed
  define j where "j = nat (- k)"
  have j: "k = - int j" "0 < j" using kneg by (simp_all add: j_def)
  have lo: "(2::real) powi k = 1 / 2 ^ j"
    using j by (simp add: power_int_def inverse_eq_divide power_one_over)
  have hi: "(2::real) powi (k + 1) = 1 / 2 ^ (j - 1)"
  proof (cases "j = 1")
    case True
    then show ?thesis using j by simp
  next
    case False
    then have "k + 1 < 0" "nat (- (k + 1)) = j - 1" using j by auto
    then show ?thesis by (simp add: power_int_def inverse_eq_divide power_one_over)
  qed
  have y_hi: "1 / x \<le> 2 ^ j"
    using assms(1) xpos unfolding lo by (simp add: field_simps)
  have y_lo: "2 ^ (j - 1) < 1 / x"
    using assms(2) xpos unfolding hi by (simp add: field_simps)
  have c_hi: "\<lceil>1 / x\<rceil> - 1 < (2::int) ^ j"
  proof -
    have "\<lceil>1 / x\<rceil> \<le> (2::int) ^ j" using y_hi by (simp add: ceiling_le_iff)
    then show ?thesis by simp
  qed
  have c_lo: "(2::int) ^ (j - 1) \<le> \<lceil>1 / x\<rceil> - 1"
  proof -
    have "real_of_int ((2::int) ^ (j - 1)) < 1 / x" using y_lo by simp
    then have "(2::int) ^ (j - 1) < \<lceil>1 / x\<rceil>" by (simp only: less_ceiling_iff)
    then show ?thesis by simp
  qed
  have "bitlen (\<lceil>1 / x\<rceil> - 1) = int j"
    using c_lo c_hi j(2) by (intro bitlen_eqI) (simp_all add: nat_diff_distrib)
  then show ?thesis using False j by (simp add: ilog2_def)
qed

lemma ulp_exp_eq:
  assumes "2 ^ 52 \<le> \<bar>x\<bar> / 2 powi e" and "\<bar>x\<bar> / 2 powi e < 2 ^ 53" and "- 1074 \<le> e"
  shows "ulp_exp x = e"
proof -
  have p: "(0::real) < 2 powi e" by simp
  have "(2::real) powi (e + 52) = 2 powi e * 2 ^ 52" by (simp add: power_int_add)
  then have lo: "2 powi (e + 52) \<le> \<bar>x\<bar>"
    using assms(1) p by (simp add: field_simps)
  have "(2::real) powi (e + 52 + 1) = 2 powi e * 2 ^ 53" by (simp add: power_int_add)
  then have hi: "\<bar>x\<bar> < 2 powi (e + 52 + 1)"
    using assms(2) p by (simp add: field_simps)
  have "ilog2 \<bar>x\<bar> = e + 52" using lo hi by (rule ilog2_eq)
  then show ?thesis using assms(3) by (simp add: ulp_exp_def)
qed

lemma rnd_eq:
  assumes "2 ^ 52 \<le> \<bar>x\<bar> / 2 powi e" and "\<bar>x\<bar> / 2 powi e < 2 ^ 53" and "- 1074 \<le> e"
  shows "rnd x = of_int (round_even (x / 2 powi e)) * 2 powi e"
proof -
  have "x \<noteq> 0" using assms(1) by auto
  then show ?thesis by (simp add: rnd_def ulp_exp_eq [OF assms])
qed

lemma round_even_nearest: "\<bar>real_of_int (round_even q) - q\<bar> \<le> 1 / 2"
proof -
  have "real_of_int \<lfloor>q\<rfloor> \<le> q" "q < real_of_int \<lfloor>q\<rfloor> + 1" by linarith+
  then show ?thesis by (auto simp: round_even_def Let_def)
qed

lemma rnd_nearest: "\<bar>rnd x - x\<bar> \<le> 2 powi ulp_exp x / 2"
proof (cases "x = 0")
  case True
  then show ?thesis by (simp add: rnd_def)
next
  case False
  let ?u = "(2::real) powi ulp_exp x"
  have u: "0 < ?u" by simp
  have "rnd x - x = (real_of_int (round_even (x / ?u)) - x / ?u) * ?u"
    using False by (simp add: rnd_def algebra_simps)
  then have "\<bar>rnd x - x\<bar> = \<bar>real_of_int (round_even (x / ?u)) - x / ?u\<bar> * ?u"
    using u by (simp add: abs_mult)
  also have "\<dots> \<le> 1 / 2 * ?u"
    using round_even_nearest [of "x / ?u"] u by (intro mult_right_mono) simp_all
  finally show ?thesis by simp
qed

lemma rnd_exact:
  assumes "x = real_of_int m * 2 powi k" and "\<bar>m\<bar> < 2 ^ 53" and "- 1074 \<le> k"
  shows "rnd x = x"
proof (cases "m = 0")
  case True
  then show ?thesis using assms(1) by (simp add: rnd_def)
next
  case False
  define b where "b = bitlen \<bar>m\<bar>"
  have mpos: "0 < \<bar>m\<bar>" using False by simp
  have b_hi: "b \<le> 53" unfolding b_def using assms(2) bitlen_le_iff_power [of "\<bar>m\<bar>" 53] by simp
  have bb: "2 ^ nat (b - 1) \<le> \<bar>m\<bar>" "\<bar>m\<bar> < 2 ^ nat b"
    unfolding b_def using bitlen_bounds [OF mpos] by simp_all
  have b_lo: "1 \<le> b"
  proof (rule ccontr)
    assume "\<not> 1 \<le> b"
    then have "nat b = 0" by simp
    then show False using bb(2) mpos by simp
  qed
  have ax: "\<bar>x\<bar> = real_of_int \<bar>m\<bar> * 2 powi k"
    unfolding assms(1) by (simp add: abs_mult)
  have q1: "(2::real) powi (b - 1) = 2 ^ nat (b - 1)"
    using b_lo by (simp add: power_int_def)
  have q2: "(2::real) powi b = 2 ^ nat b"
    using b_lo by (simp add: power_int_def)
  have "(2::real) powi (k + (b - 1)) = 2 powi (b - 1) * 2 powi k"
    by (simp add: power_int_add)
  then have p1: "(2::real) powi (k + (b - 1)) = 2 ^ nat (b - 1) * 2 powi k"
    by (simp only: q1)
  have "k + (b - 1) + 1 = k + b" by simp
  then have "(2::real) powi (k + (b - 1) + 1) = 2 powi b * 2 powi k"
    by (simp add: power_int_add)
  then have p2: "(2::real) powi (k + (b - 1) + 1) = 2 ^ nat b * 2 powi k"
    by (simp only: q2)
  have "real_of_int (2 ^ nat (b - 1)) \<le> real_of_int \<bar>m\<bar>" using bb(1) by (simp only: of_int_le_iff)
  then have lo: "2 powi (k + (b - 1)) \<le> \<bar>x\<bar>"
    unfolding ax p1 by (intro mult_right_mono) simp_all
  have "real_of_int \<bar>m\<bar> < real_of_int (2 ^ nat b)" using bb(2) by (simp only: of_int_less_iff)
  then have hi: "\<bar>x\<bar> < 2 powi (k + (b - 1) + 1)"
    unfolding ax p2 by (intro mult_strict_right_mono) simp_all
  have il: "ilog2 \<bar>x\<bar> = k + (b - 1)" using lo hi by (rule ilog2_eq)
  define e where "e = ulp_exp x"
  have e: "e \<le> k" "- 1074 \<le> e"
    unfolding e_def ulp_exp_def il using b_hi assms(3) by simp_all
  define j where "j = nat (k - e)"
  have kj: "k = e + int j" using e(1) by (simp add: j_def)
  have "x / 2 powi e = real_of_int (m * 2 ^ j)"
    unfolding assms(1) kj by (simp add: power_int_add)
  then have "round_even (x / 2 powi e) = m * 2 ^ j" by (simp only: round_even_int)
  then have "real_of_int (round_even (x / 2 powi e)) * 2 powi e = x"
    unfolding assms(1) kj by (simp add: power_int_add)
  moreover have "x \<noteq> 0" using False assms(1) by simp
  ultimately show ?thesis by (simp add: rnd_def e_def)
qed

lemma round64_exact:
  assumes "x = real_of_int m * 2 powi k" and "\<bar>m\<bar> < 2 ^ 53" and "- 1074 \<le> k"
    and "\<bar>x\<bar> \<le> max_float"
  shows "round64 x = Fin x"
proof -
  have "\<not> max_float < x" "\<not> x < - max_float" using assms(4) by linarith+
  then show ?thesis by (simp add: round64_def rnd_exact [OF assms(1-3)])
qed

lemma rnd_5: "rnd 5 = 5"
  using rnd_int [of 5] by simp

lemma round64_55: "round64 55 = Fin 55"
  using round64_int [of 55] by simp

lemma round64_11: "round64 11 = Fin 11"
  using round64_int [of 11] by simp

lemma round64_not_NaN: "round64 x \<noteq> NaN" "NaN \<noteq> round64 x"
  by (simp_all add: round64_def Let_def)

lemma wrap64_zero: "wrap64 0 = 0"
  by (simp add: wrap64_def)

lemma wrap64_wrap64_add: "wrap64 (wrap64 a + b) = wrap64 (a + b)"
proof -
  have "wrap64 a + b + 2 ^ 63 = (a + 2 ^ 63) mod 2 ^ 64 + b"
    by (simp add: wrap64_def)
  then have "(wrap64 a + b + 2 ^ 63) mod 2 ^ 64 = ((a + 2 ^ 63) mod 2 ^ 64 + b) mod (2 ^ 64 :: int)"
    by (simp only:)
  also have "\<dots> = (a + 2 ^ 63 + b) mod 2 ^ 64"
    by (rule mod_add_left_eq)
  also have "a + 2 ^ 63 + b = a + b + 2 ^ 63" by simp
  finally show ?thesis by (simp only: wrap64_def)
qed

lemma wrap64_int64: "int64 v \<Longrightarrow> wrap64 v = v"
  by (simp add: int64_def wrap64_def)

lemma wrap64_5: "wrap64 5 = 5"
  by (simp add: wrap64_int64 int64_def)

lemma length_cumsum_from: "length (cumsum_from acc xs) = length xs"
  by (induction xs arbitrary: acc) simp_all

lemma length_cumsum: "length (cumsum xs) = length xs"
  by (induction xs) (simp_all add: length_cumsum_from)

lemma length_cumsum_int64_from: "length (cumsum_int64_from acc vs) = length vs"
  by (induction acc vs rule: cumsum_int64_from.induct) simp_all

lemma length_cumsum_int64: "length (cumsum_int64 vs) = length vs"
  by (induction vs rule: cumsum_int64.induct) (simp_all add: length_cumsum_int64_from)

lemma cumsum_from_nth:
  assumes "NaN \<notin> set xs" and "i < length xs"
  shows "cumsum_from acc xs ! i = foldl fadd acc (take (Suc i) xs)"
  using assms
proof (induction xs arbitrary: acc i)
  case Nil
  then show ?case by simp
next
  case (Cons x xs)
  then show ?case by (cases i) auto
qed

lemma cumsum_nth:
  assumes "NaN \<notin> set xs" and "i < length xs"
  shows "cumsum xs ! i = fl_sum (take (Suc i) xs)"
proof (cases xs)
  case Nil
  then show ?thesis using assms by simp
next
  case (Cons x rest)
  show ?thesis
  proof (cases i)
    case 0
    then show ?thesis using Cons assms by simp
  next
    case (Suc j)
    then have "j < length rest" "NaN \<notin> set rest" "x \<noteq> NaN" using Cons assms by auto
    then show ?thesis using Cons Suc by (simp add: cumsum_from_nth)
  qed
qed

lemma cumsum_int64_from_nth:
  assumes "i < length vs"
  shows "cumsum_int64_from acc (map Some vs) ! i = Some (wrap64 (acc + (\<Sum>k = 0..i. vs ! k)))"
  using assms
proof (induction vs arbitrary: acc i)
  case Nil
  then show ?case by simp
next
  case (Cons v vs)
  show ?case
  proof (cases i)
    case 0
    then show ?thesis by simp
  next
    case (Suc j)
    then have j: "j < length vs" using Cons.prems by simp
    have "(\<Sum>k = 0..Suc j. (v # vs) ! k) = v + (\<Sum>k = 0..j. vs ! k)"
      by (simp add: sum.atLeast0_atMost_Suc_shift del: sum.atMost_Suc sum.cl_ivl_Suc)
    then show ?thesis using Cons.IH [OF j, of "wrap64 (acc + v)"] Suc
      by (simp add: wrap64_wrap64_add add.assoc del: sum.cl_ivl_Suc)
  qed
qed

lemma cumsum_int64_nth:
  assumes "i < length vs" and "int64 (vs ! 0)"
  shows "cumsum_int64 (map Some vs) ! i = Some (wrap64 (\<Sum>k = 0..i. vs ! k))"
proof (cases vs)
  case Nil
  then show ?thesis using assms by simp
next
  case (Cons v rest)
  have v: "wrap64 v = v" using assms(2) Cons by (simp add: wrap64_int64)
  show ?thesis
  proof (cases i)
    case 0
    then show ?thesis using Cons v by simp
  next
    case (Suc j)
    then have j: "j < length rest" using Cons assms by simp
    have "(\<Sum>k = 0..Suc j. (v # rest) ! k) = v + (\<Sum>k = 0..j. rest ! k)"
      by (simp add: sum.atLeast0_atMost_Suc_shift del: sum.atMost_Suc sum.cl_ivl_Suc)
    then show ?thesis using Cons Suc cumsum_int64_from_nth [OF j, of v]
      by (simp del: sum.cl_ivl_Suc)
  qed
qed

lemma series_mul_Some:
  "series_mul (map Some cs) (map Some vs) = map2 (\<lambda>c v. round64 (c * rnd (real_of_int v))) cs vs"
  by (auto simp: series_mul_def zip_map_map)

lemma vwap_nth:
  assumes "Close d = map Some cs" and "Volume d = map Some vs"
    and "length vs = length cs" and "i < length cs" and "int64 (vs ! 0)"
  shows "vwap d ! i
         = div_cell (fl_sum (take (Suc i) (map2 (\<lambda>c v. round64 (c * rnd (real_of_int v))) cs vs)))
                    (Some (wrap64 (\<Sum>k = 0..i. vs ! k)))"
proof -
  let ?p = "map2 (\<lambda>c v. round64 (c * rnd (real_of_int v))) cs vs"
  have lp: "i < length ?p" using assms by simp
  have nn: "NaN \<notin> set ?p" by (auto simp: round64_not_NaN)
  have n: "cumsum (series_mul (Close d) (Volume d)) ! i = fl_sum (take (Suc i) ?p)"
    unfolding assms(1,2) series_mul_Some using nn lp by (rule cumsum_nth)
  have iv: "i < length vs" using assms by simp
  have dn: "cumsum_int64 (Volume d) ! i = Some (wrap64 (\<Sum>k = 0..i. vs ! k))"
    unfolding assms(2) using iv assms(5) by (rule cumsum_int64_nth)
  have "vwap d ! i
        = div_cell (cumsum (series_mul (Close d) (Volume d)) ! i) (cumsum_int64 (Volume d) ! i)"
    unfolding vwap_def series_div_def
    using assms by (simp add: length_cumsum length_cumsum_int64 series_mul_def)
  then show ?thesis by (simp only: n dn)
qed

lemma foldl_fadd_zeros:
  assumes "\<forall>x \<in> set xs. x = Fin 0"
  shows "foldl fadd (Fin 0) xs = Fin 0"
  using assms by (induction xs) (simp_all add: round64_zero)

lemma fl_sum_zeros:
  assumes "\<forall>x \<in> set xs. x = Fin 0"
  shows "fl_sum xs = Fin 0"
  using assms foldl_fadd_zeros by (cases xs) simp_all

lemma zero_prefix:
  assumes "\<forall>v \<in> set vs. 0 \<le> v" and "i < length vs" and "(\<Sum>k = 0..i. vs ! k) = (0::int)"
  shows "\<forall>k \<le> i. vs ! k = 0"
proof -
  have nonneg: "\<And>k. k \<in> {0..i} \<Longrightarrow> 0 \<le> vs ! k" using assms(1,2) by simp
  have "\<forall>k \<in> {0..i}. vs ! k = 0"
    using sum_nonneg_eq_0_iff [of "{0..i}" "\<lambda>k. vs ! k"] assms(3) nonneg by auto
  then show ?thesis by simp
qed

lemma zero_products:
  assumes "\<forall>k \<le> i. vs ! k = (0::int)" and "i < length cs" and "length vs = length cs"
  shows "fl_sum (take (Suc i) (map2 (\<lambda>c v. round64 (c * rnd (real_of_int v))) cs vs)) = Fin 0"
proof (rule fl_sum_zeros, rule ballI)
  fix x
  assume "x \<in> set (take (Suc i) (map2 (\<lambda>c v. round64 (c * rnd (real_of_int v))) cs vs))"
  then obtain k where k: "k < Suc i" "k < length cs"
      and x: "x = map2 (\<lambda>c v. round64 (c * rnd (real_of_int v))) cs vs ! k"
    using assms(2,3) by (auto simp: in_set_conv_nth)
  have "vs ! k = 0" using assms(1) k(1) by simp
  then show "x = Fin 0" using x k assms(3) by (simp add: rnd_zero round64_zero)
qed

text \<open>
  C2, as the script has it. On a series without nulls, at every index: VWAP is the
  \<open>float64\<close> quotient of the \<open>float64\<close> running sum of close times volume (every product
  and every partial sum rounded) by the \<open>int64\<close> running sum of volume (which wraps at
  \<open>2^63\<close>); when the cumulative volume is 0 and no volume is negative, the cell is
  NaN. The VWAP branch raises nothing and reports nothing, assigns the column to the
  stored series and plots that same column, NaN cells included.
\<close>

theorem vwap_is_cumulative_quotient:
  assumes "Close d = map Some cs" and "Volume d = map Some vs"
    and "length vs = length cs" and "i < length cs" and "\<forall>v \<in> set vs. int64 v"
  shows "vwap d ! i
           = div_cell (fl_sum (take (Suc i) (map2 (\<lambda>c v. round64 (c * rnd (real_of_int v))) cs vs)))
                      (Some (wrap64 (\<Sum>k = 0..i. vs ! k))) \<and>
         ((\<Sum>k = 0..i. vs ! k) = 0 \<and> (\<forall>v \<in> set vs. 0 \<le> v) \<longrightarrow> vwap d ! i = NaN) \<and>
         add_indicator no_fault ''VWAP'' d fig
           = (set_column ''VWAP'' (vwap d) d,
              add_trace (Scatter (Date d) (vwap d) ''lines'' ''VWAP'') fig, [])"
proof -
  have i0: "int64 (vs ! 0)" using assms(3,4,5) by (cases vs) auto
  have q: "vwap d ! i
           = div_cell (fl_sum (take (Suc i) (map2 (\<lambda>c v. round64 (c * rnd (real_of_int v))) cs vs)))
                      (Some (wrap64 (\<Sum>k = 0..i. vs ! k)))"
    using assms(1-4) i0 by (rule vwap_nth)
  have z: "vwap d ! i = NaN" if "(\<Sum>k = 0..i. vs ! k) = 0" and "\<forall>v \<in> set vs. 0 \<le> v"
  proof -
    have "\<forall>k \<le> i. vs ! k = 0" using zero_prefix [of vs i] that assms(3,4) by simp
    then have "fl_sum (take (Suc i) (map2 (\<lambda>c v. round64 (c * rnd (real_of_int v))) cs vs)) = Fin 0"
      using assms(3,4) by (intro zero_products) simp_all
    then show ?thesis using q that(1) by (simp add: wrap64_zero)
  qed
  have a: "add_indicator no_fault ''VWAP'' d fig
           = (set_column ''VWAP'' (vwap d) d,
              add_trace (Scatter (Date d) (vwap d) ''lines'' ''VWAP'') fig, [])"
    by (simp add: add_indicator_def no_fault_def Let_def set_column_def)
  show ?thesis using q z a by blast
qed

lemma vwap_zero_volume_frame: "vwap zero_volume_frame = [NaN, Fin 11]"
  by (simp add: vwap_def zero_volume_frame_def flat_frame_def series_div_def series_mul_def
      rnd_zero round64_zero rnd_5 wrap64_5 round64_55 round64_11)

text \<open>
  The values of line 110 on the two other example series: the wrapped running sum of
  the volumes turns the second value into \<open>-10\<close>, and \<open>0.1 * 3 / 3\<close> is the \<open>float64\<close>
  number \<open>0.10000000000000002\<close>, one place above the close.
\<close>

lemma rnd_2p62: "rnd 4611686018427387904 = 4611686018427387904"
  using rnd_exact [of 4611686018427387904 1 62] by simp

lemma rnd_m2p63: "rnd (- 9223372036854775808) = - 9223372036854775808"
  using rnd_exact [of "- 9223372036854775808" "- 1" 63] by simp

lemma round64_10_2p62: "round64 46116860184273879040 = Fin 46116860184273879040"
  using round64_exact [of 46116860184273879040 5 63] by (simp add: max_float_def)

lemma round64_20_2p62: "round64 92233720368547758080 = Fin 92233720368547758080"
  using round64_exact [of 92233720368547758080 5 64] by (simp add: max_float_def)

lemma round64_10: "round64 10 = Fin 10"
  using round64_int [of 10] by simp

lemma round64_m10: "round64 (- 10) = Fin (- 10)"
  using round64_int [of "- 10"] by simp

lemma wrap64_2p63: "wrap64 9223372036854775808 = - 9223372036854775808"
  by (simp add: wrap64_def)

lemma vwap_wrap_frame: "vwap wrap_frame = [Fin 10, Fin (- 10)]"
  by (simp add: vwap_def wrap_frame_def flat_frame_def series_div_def series_mul_def
      rnd_2p62 rnd_m2p63 round64_10_2p62 round64_20_2p62 round64_10 round64_m10 wrap64_2p63)

lemma rnd_3: "rnd 3 = 3"
  using rnd_int [of 3] by simp

lemma tenth_times_three:
  "round64 (3602879701896397 / 36028797018963968 * rnd 3) = Fin (1351079888211149 / 4503599627370496)"
proof -
  let ?x = "10808639105689191 / 36028797018963968 :: real"
  have r3: "rnd 3 = 3" using rnd_int [of 3] by simp
  have "rnd ?x = of_int (round_even (?x / 2 powi (- 54))) * 2 powi (- 54)"
    by (rule rnd_eq) (simp_all add: power_int_minus)
  also have "?x / 2 powi (- 54) = 10808639105689191 / 2" by (simp add: power_int_minus)
  also have "round_even (10808639105689191 / 2) = 5404319552844596"
    by (simp add: round_even_def)
  finally have "rnd ?x = 1351079888211149 / 4503599627370496" by (simp add: power_int_minus)
  then show ?thesis by (simp add: round64_def r3 max_float_def)
qed

lemma tenth_quotient:
  "round64 (1351079888211149 / 13510798882111488) = Fin (7205759403792795 / 72057594037927936)"
proof -
  let ?x = "1351079888211149 / 13510798882111488 :: real"
  have "rnd ?x = of_int (round_even (?x / 2 powi (- 56))) * 2 powi (- 56)"
    by (rule rnd_eq) (simp_all add: power_int_minus)
  also have "?x / 2 powi (- 56) = 21617278211378384 / 3" by (simp add: power_int_minus)
  also have "round_even (21617278211378384 / 3) = 7205759403792795"
    by (simp add: round_even_def)
  finally have "rnd ?x = 7205759403792795 / 72057594037927936" by (simp add: power_int_minus)
  then show ?thesis by (simp add: round64_def max_float_def)
qed

lemma vwap_tenth_frame: "vwap tenth_frame = [Fin (7205759403792795 / 72057594037927936)]"
  using tenth_times_three tenth_quotient
  by (simp add: vwap_def tenth_frame_def flat_frame_def series_div_def series_mul_def rnd_3)

theorem vwap_is_cumulative_quotient_witness:
  "vwap zero_volume_frame ! 1 = Fin 11 \<and> vwap zero_volume_frame ! 0 = NaN \<and>
   snd (snd (add_indicator no_fault ''VWAP'' zero_volume_frame (candlestick_fig ''AAPL'' zero_volume_frame))) = [] \<and>
   vwap wrap_frame ! 1 = Fin (- 10) \<and>
   vwap tenth_frame ! 0 = Fin (7205759403792795 / 72057594037927936)"
proof -
  have wc: "Close wrap_frame = map Some [10, 10]"
    and wv: "Volume wrap_frame = map Some [4611686018427387904, 4611686018427387904]"
    by (simp_all add: wrap_frame_def flat_frame_def)
  have wl: "length [4611686018427387904, 4611686018427387904 :: int] = length [10, 10 :: real]"
    by simp
  have wi: "1 < length [10, 10 :: real]" by simp
  have wr: "\<forall>v \<in> set [4611686018427387904, 4611686018427387904 :: int]. int64 v"
    by (simp add: int64_def)
  have ws: "(\<Sum>k = 0..1. [4611686018427387904, 4611686018427387904 :: int] ! k) = 9223372036854775808"
    by (simp add: sum.atLeast_Suc_atMost)
  have "vwap wrap_frame ! 1
        = div_cell (fl_sum (take (Suc 1) (map2 (\<lambda>c v. round64 (c * rnd (real_of_int v))) [10, 10]
                              [4611686018427387904, 4611686018427387904])))
                   (Some (wrap64 (\<Sum>k = 0..1. [4611686018427387904, 4611686018427387904 :: int] ! k)))"
    using vwap_is_cumulative_quotient [OF wc wv wl wi wr, of "candlestick_fig ''AAPL'' wrap_frame"]
    by blast
  also have "\<dots> = Fin (- 10)"
    unfolding ws
    by (simp add: rnd_2p62 rnd_m2p63 round64_10_2p62 round64_20_2p62 round64_m10 wrap64_2p63)
  finally have w: "vwap wrap_frame ! 1 = Fin (- 10)" .
  have th: "vwap tenth_frame ! 0 = Fin (7205759403792795 / 72057594037927936)"
    by (simp add: vwap_tenth_frame)
  have c: "Close zero_volume_frame = map Some [10, 11]"
    and v: "Volume zero_volume_frame = map Some [0, 5]"
    by (simp_all add: zero_volume_frame_def flat_frame_def)
  have l: "length [0, 5 :: int] = length [10, 11 :: real]" by simp
  have i1: "1 < length [10, 11 :: real]" and i0: "0 < length [10, 11 :: real]" by simp_all
  have r: "\<forall>v \<in> set [0, 5 :: int]. int64 v" by (simp add: int64_def)
  have t: "((\<Sum>k = 0..0. [0, 5 :: int] ! k) = 0 \<and> (\<forall>v \<in> set [0, 5 :: int]. 0 \<le> v)
             \<longrightarrow> vwap zero_volume_frame ! 0 = NaN) \<and>
           add_indicator no_fault ''VWAP'' zero_volume_frame (candlestick_fig ''AAPL'' zero_volume_frame)
             = (set_column ''VWAP'' (vwap zero_volume_frame) zero_volume_frame,
                add_trace (Scatter (Date zero_volume_frame) (vwap zero_volume_frame) ''lines'' ''VWAP'')
                  (candlestick_fig ''AAPL'' zero_volume_frame), [])"
    using vwap_is_cumulative_quotient [OF c v l i0 r, of "candlestick_fig ''AAPL'' zero_volume_frame"]
    by blast
  have "vwap zero_volume_frame ! 0 = NaN" using t by simp
  moreover have "snd (snd (add_indicator no_fault ''VWAP'' zero_volume_frame
                             (candlestick_fig ''AAPL'' zero_volume_frame))) = []"
    using t by simp
  moreover have "vwap zero_volume_frame ! 1 = Fin 11"
    by (simp add: vwap_zero_volume_frame)
  ultimately show ?thesis using w th by simp
qed

text \<open>
  C2, as stated, says that a cumulative volume of 0 gives an undefined value and not a
  NaN that travels on unchecked. For the two-day series with volumes 0 and 5, which
  passes the gate: the VWAP line handed to the chart starts with NaN, the series the
  session holds afterwards has a null cell, and the next run of the page on that
  session stops at the gate with the warning of line 155.
\<close>

theorem zero_volume_nan_reaches_chart_and_session:
  "\<not> empty zero_volume_frame \<and> \<not> isnull_any zero_volume_frame \<and>
   tr_y (last (traces (fst (snd (build_chart no_fault ''AAPL'' zero_volume_frame [''VWAP''])))))
     = [NaN, Fin 11] \<and>
   isnull_any (fst (build_chart no_fault ''AAPL'' zero_volume_frame [''VWAP''])) \<and>
   fst (snd (dashboard world0 widgets_vwap
               (fst (dashboard world0 widgets_vwap (state_of zero_volume_frame)))))
     = [St_warning no_data_warning, St_info click_fetch_info]"
proof -
  have valid: "\<not> empty zero_volume_frame \<and> \<not> isnull_any zero_volume_frame"
    by (simp add: zero_volume_frame_def flat_frame_def empty_def isnull_any_def nrows_def)
  have bc: "fst (build_chart no_fault ''AAPL'' zero_volume_frame [''VWAP''])
            = set_column ''VWAP'' [NaN, Fin 11] zero_volume_frame"
    by (simp add: build_chart_proj add_indicator_def no_fault_def Let_def vwap_zero_volume_frame)
  have y: "tr_y (last (traces (fst (snd (build_chart no_fault ''AAPL'' zero_volume_frame [''VWAP''])))))
     = [NaN, Fin 11]"
    by (simp add: build_chart_proj add_indicator_def no_fault_def Let_def vwap_zero_volume_frame
        add_trace_def candlestick_fig_def)
  have n: "isnull_any (set_column ''VWAP'' [NaN, Fin 11] zero_volume_frame)"
    by (simp add: set_column_def isnull_any_def zero_volume_frame_def flat_frame_def)
  have s1: "fst (dashboard world0 widgets_vwap (state_of zero_volume_frame))
            = \<lparr>stock_data = Some (set_column ''VWAP'' [NaN, Fin 11] zero_volume_frame), files = (\<lambda>p. None)\<rparr>"
    using dashboard_valid [of "state_of zero_volume_frame" zero_volume_frame world0 widgets_vwap] valid bc
    by (simp add: state_of_def Let_def widgets_vwap_def widgets0_def world0_def)
  have inv: "empty (set_column ''VWAP'' [NaN, Fin 11] zero_volume_frame)
             \<or> isnull_any (set_column ''VWAP'' [NaN, Fin 11] zero_volume_frame)"
    using n by blast
  have "dashboard world0 widgets_vwap
          \<lparr>stock_data = Some (set_column ''VWAP'' [NaN, Fin 11] zero_volume_frame), files = (\<lambda>p. None)\<rparr>
        = (\<lparr>stock_data = Some (set_column ''VWAP'' [NaN, Fin 11] zero_volume_frame), files = (\<lambda>p. None)\<rparr>,
           [St_warning no_data_warning, St_info click_fetch_info], Finished)"
    by (rule dashboard_invalid [OF _ inv]) simp
  then show ?thesis using valid bc y n s1 by simp
qed

subsection \<open>The validation gate\<close>

text \<open>
  C5, as the script has it. A stored series that is empty or holds a null cell gets
  the warning of line 155 and the hint of line 156 and nothing else: no chart is drawn,
  no indicator is computed, the session is left as it was. The warning is one text for
  both cases.
\<close>

theorem invalid_series_is_rejected:
  assumes "stock_data s = Some d" and "empty d \<or> isnull_any d"
  shows "dashboard w inp s = (s, [St_warning no_data_warning, St_info click_fetch_info], Finished)"
  using assms by (rule dashboard_invalid)

lemma null_frame_null: "\<not> empty null_frame \<and> isnull_any null_frame"
  by (simp add: null_frame_def flat_frame_def empty_def isnull_any_def nrows_def)

lemma empty_frame_empty: "empty empty_frame \<and> \<not> isnull_any empty_frame"
  by (simp add: empty_frame_def flat_frame_def empty_def isnull_any_def nrows_def)

theorem invalid_series_is_rejected_witness:
  "dashboard world0 widgets0 (state_of null_frame)
     = (state_of null_frame, [St_warning no_data_warning, St_info click_fetch_info], Finished) \<and>
   dashboard world0 widgets0 (state_of empty_frame)
     = (state_of empty_frame, [St_warning no_data_warning, St_info click_fetch_info], Finished)"
  using invalid_series_is_rejected [of "state_of null_frame" null_frame world0 widgets0]
        invalid_series_is_rejected [of "state_of empty_frame" empty_frame world0 widgets0]
        null_frame_null empty_frame_empty
  by (simp add: state_of_def)

text \<open>
  C5, as stated, asks for a message for the empty series that differs from the message
  for a series with a null close. The page for the empty series and the page for the
  series with a null close are the same.
\<close>

theorem empty_and_null_share_one_message:
  "empty empty_frame \<and> \<not> isnull_any empty_frame \<and> \<not> empty null_frame \<and> isnull_any null_frame \<and>
   fst (snd (dashboard world0 widgets0 (state_of empty_frame)))
     = fst (snd (dashboard world0 widgets0 (state_of null_frame)))"
  using null_frame_null empty_frame_empty
  by (simp add: dashboard_def state_of_def)

subsection \<open>The analysis request\<close>

lemma fetch_failure_is_reported:
  assumes "fetch_clicked inp" and "yf_download w (ticker inp) (start_date inp) (end_date inp) = Inl e"
  shows "script w inp s = (s, [St_error (''Error fetching data: '' @ e)], Stopped)"
  using assms by (simp add: script_def)

lemma analyze_render_raises:
  assumes "write_image w fig = Inl e"
  shows "analyze w fig fs = (fs(tmp_name w \<mapsto> []), [], Unhandled e)"
  using assms by (simp add: analyze_def Let_def)

lemma analyze_chat_raises:
  assumes "write_image w fig = Inr png"
    and "ollama_chat w ''llama3.2-vision'' prompt [b64encode w png] = Inl e"
  shows "analyze w fig fs = (fs(tmp_name w \<mapsto> png), [], Unhandled e)"
  using assms by (simp add: analyze_def Let_def)

lemma analyze_success:
  assumes "write_image w fig = Inr png"
    and "ollama_chat w ''llama3.2-vision'' prompt [b64encode w png] = Inr content"
  shows "analyze w fig fs
         = (fs(tmp_name w := None), [St_write ''**AI Analysis Results:**'', St_write content], Finished)"
  using assms by (simp add: analyze_def Let_def)

lemma dashboard_analysis:
  assumes "stock_data s = Some d" "\<not> empty d" "\<not> isnull_any d" "analysis_clicked inp"
  shows "files (fst (dashboard w inp s))
           = fst (analyze w (fst (snd (build_chart (fault w) (ticker inp) d (indicators inp)))) (files s))"
    and "snd (snd (dashboard w inp s))
           = snd (snd (analyze w (fst (snd (build_chart (fault w) (ticker inp) d (indicators inp)))) (files s)))"
    and "fst (snd (dashboard w inp s))
           = page_head d @ snd (snd (build_chart (fault w) (ticker inp) d (indicators inp)))
             @ [St_subheader ''AI-Powered Analysis'']
             @ fst (snd (analyze w (fst (snd (build_chart (fault w) (ticker inp) d (indicators inp)))) (files s)))"
  using dashboard_valid [OF assms(1-3), of w inp] assms(4) by (simp_all add: Let_def)

lemma analyze_timeout:
  "analyze world_timeout fig fs = (fs(''/tmp/tmpchart.png'' \<mapsto> ''PNG''), [], Unhandled ''timed out'')"
  by (simp add: analyze_def world_timeout_def world0_def Let_def)

text \<open>
  C6 at a failing input: the series passes the gate, the analysis button is clicked and
  the endpoint times out. No handler surrounds lines 127--152: the exception leaves the
  script unhandled, and no \<open>st.error\<close> message is on the page. (The fetch of lines
  24--36 and the body of \<open>add_indicator\<close> do have handlers.)
\<close>

theorem analysis_failure_is_unhandled:
  "snd (snd (dashboard world_timeout widgets_analyze (state_of frame21))) = Unhandled ''timed out'' \<and>
   filter is_error (fst (snd (dashboard world_timeout widgets_analyze (state_of frame21)))) = []"
proof -
  have a: "stock_data (state_of frame21) = Some frame21" by (simp add: state_of_def)
  have v: "\<not> empty frame21" "\<not> isnull_any frame21" using frame21_valid by simp_all
  have c: "analysis_clicked widgets_analyze" by (simp add: widgets_analyze_def)
  have f: "fault world_timeout = no_fault" by (simp add: world_timeout_def world0_def)
  have i: "indicators widgets_analyze = [''20-Day SMA'']" by (simp add: widgets_analyze_def widgets0_def)
  show ?thesis
    unfolding dashboard_analysis [OF a v c] analyze_timeout f i
    by (simp add: page_head_def build_chart_proj add_indicator_events error_events_def no_fault_def)
qed

text \<open>
  C7 at the same failing input: the temporary image, absent before the run, is still on
  disk after it, because \<open>os.remove\<close> of line 152 comes after the request and is not in
  a \<open>finally\<close>. When the request succeeds the file is removed.
\<close>

theorem temp_file_survives_failure:
  "files (state_of frame21) ''/tmp/tmpchart.png'' = None \<and>
   files (fst (dashboard world_timeout widgets_analyze (state_of frame21))) ''/tmp/tmpchart.png''
     = Some ''PNG'' \<and>
   files (fst (dashboard world0 widgets_analyze (state_of frame21))) ''/tmp/tmpchart.png'' = None"
proof -
  have a: "stock_data (state_of frame21) = Some frame21" by (simp add: state_of_def)
  have v: "\<not> empty frame21" "\<not> isnull_any frame21" using frame21_valid by simp_all
  have c: "analysis_clicked widgets_analyze" by (simp add: widgets_analyze_def)
  have ok: "\<And>fig fs. analyze world0 fig fs
      = (fs(''/tmp/tmpchart.png'' := None), [St_write ''**AI Analysis Results:**'', St_write ''HOLD''], Finished)"
    by (simp add: analyze_def world0_def Let_def)
  show ?thesis
    unfolding dashboard_analysis [OF a v c] analyze_timeout ok
    by (simp add: state_of_def)
qed

end
